theory Spec2Isabelle
  imports Complex_Main
begin

section \<open>JavaScript numbers\<close>

text \<open>
  The program computes on JavaScript numbers. A finite number is modelled as a real and
  the arithmetic on finite numbers is exact: rounding to the nearest double and overflow
  to Infinity are not part of this model. The three special values are kept, because the
  code can produce them from finite inputs by dividing by zero, and each operation treats
  them as IEEE 754 does. The two zeros are identified (\<open>Num 0\<close> stands for +0): the only
  divisor the code computes that can be zero is \<open>win_prob + EPS\<close>, and a sum of two
  numbers that are not both -0 is never -0.

  Since a sum or product of finite numbers stays finite here, a property that the program
  loses when a sum overflows is stated with the bound \<open>MAX_VALUE\<close> on that sum as a
  hypothesis, so that it says nothing where the doubles overflow.
\<close>

datatype jsnum = Num real | PosInf | NegInf | NaN

fun js_neg :: "jsnum \<Rightarrow> jsnum" where
  "js_neg (Num x) = Num (- x)"
| "js_neg PosInf = NegInf"
| "js_neg NegInf = PosInf"
| "js_neg NaN = NaN"

fun js_add :: "jsnum \<Rightarrow> jsnum \<Rightarrow> jsnum" where
  "js_add (Num x) (Num y) = Num (x + y)"
| "js_add NaN _ = NaN"
| "js_add _ NaN = NaN"
| "js_add PosInf NegInf = NaN"
| "js_add NegInf PosInf = NaN"
| "js_add PosInf _ = PosInf"
| "js_add _ PosInf = PosInf"
| "js_add NegInf _ = NegInf"
| "js_add _ NegInf = NegInf"

definition js_sub :: "jsnum \<Rightarrow> jsnum \<Rightarrow> jsnum" where
  "js_sub a b = js_add a (js_neg b)"

fun js_mul :: "jsnum \<Rightarrow> jsnum \<Rightarrow> jsnum" where
  "js_mul (Num x) (Num y) = Num (x * y)"
| "js_mul NaN _ = NaN"
| "js_mul _ NaN = NaN"
| "js_mul (Num x) PosInf = (if x = 0 then NaN else if 0 < x then PosInf else NegInf)"
| "js_mul (Num x) NegInf = (if x = 0 then NaN else if 0 < x then NegInf else PosInf)"
| "js_mul PosInf (Num y) = (if y = 0 then NaN else if 0 < y then PosInf else NegInf)"
| "js_mul NegInf (Num y) = (if y = 0 then NaN else if 0 < y then NegInf else PosInf)"
| "js_mul PosInf PosInf = PosInf"
| "js_mul PosInf NegInf = NegInf"
| "js_mul NegInf PosInf = NegInf"
| "js_mul NegInf NegInf = PosInf"

fun js_div :: "jsnum \<Rightarrow> jsnum \<Rightarrow> jsnum" where
  "js_div (Num x) (Num y) =
     (if y \<noteq> 0 then Num (x / y)
      else if 0 < x then PosInf else if x < 0 then NegInf else NaN)"
| "js_div NaN _ = NaN"
| "js_div _ NaN = NaN"
| "js_div (Num x) PosInf = Num 0"
| "js_div (Num x) NegInf = Num 0"
| "js_div PosInf (Num y) = (if 0 \<le> y then PosInf else NegInf)"
| "js_div NegInf (Num y) = (if 0 \<le> y then NegInf else PosInf)"
| "js_div PosInf PosInf = NaN"
| "js_div PosInf NegInf = NaN"
| "js_div NegInf PosInf = NaN"
| "js_div NegInf NegInf = NaN"

text \<open>\<open>Math.max(a, b)\<close>: NaN as soon as one argument is NaN.\<close>

fun js_max :: "jsnum \<Rightarrow> jsnum \<Rightarrow> jsnum" where
  "js_max (Num x) (Num y) = Num (max x y)"
| "js_max NaN _ = NaN"
| "js_max _ NaN = NaN"
| "js_max PosInf _ = PosInf"
| "js_max _ PosInf = PosInf"
| "js_max NegInf b = b"
| "js_max a NegInf = a"

text \<open>
  \<open>Math.round(x)\<close>: the integer nearest to \<open>x\<close>, a tie going towards +Infinity, which is
  the floor of \<open>x + 1/2\<close>.
\<close>

fun js_round :: "jsnum \<Rightarrow> jsnum" where
  "js_round (Num x) = Num (of_int \<lfloor>x + 1 / 2\<rfloor>)"
| "js_round PosInf = PosInf"
| "js_round NegInf = NegInf"
| "js_round NaN = NaN"

text \<open>\<open>a || b\<close> on numbers: the falsy numbers are 0 and NaN.\<close>

fun js_or :: "jsnum \<Rightarrow> jsnum \<Rightarrow> jsnum" where
  "js_or (Num x) b = (if x = 0 then b else Num x)"
| "js_or NaN b = b"
| "js_or PosInf b = PosInf"
| "js_or NegInf b = NegInf"

text \<open>\<open>a <= b\<close> and \<open>a < b\<close>: false as soon as one side is NaN.\<close>

fun js_le :: "jsnum \<Rightarrow> jsnum \<Rightarrow> bool" where
  "js_le (Num x) (Num y) = (x \<le> y)"
| "js_le NaN _ = False"
| "js_le _ NaN = False"
| "js_le NegInf _ = True"
| "js_le _ PosInf = True"
| "js_le PosInf _ = False"
| "js_le _ NegInf = False"

fun js_lt :: "jsnum \<Rightarrow> jsnum \<Rightarrow> bool" where
  "js_lt (Num x) (Num y) = (x < y)"
| "js_lt NaN _ = False"
| "js_lt _ NaN = False"
| "js_lt PosInf _ = False"
| "js_lt _ NegInf = False"
| "js_lt NegInf _ = True"
| "js_lt _ PosInf = True"

text \<open>\<open>Number.isFinite\<close>: neither NaN nor an infinity.\<close>

fun js_isFinite :: "jsnum \<Rightarrow> bool" where
  "js_isFinite (Num x) = True"
| "js_isFinite _ = False"

text \<open>\<open>Number.MAX_VALUE\<close>, the largest finite double.\<close>

definition MAX_VALUE :: real where
  "MAX_VALUE = 2 ^ 1024 - 2 ^ 971"

section \<open>Configuration\<close>

definition RANK_MULTIPLIERS :: "(int \<times> real) list" where
  "RANK_MULTIPLIERS =
     [(1, 1.10), (2, 1.08), (3, 1.06), (4, 1.04), (5, 1.02), (6, 1.01), (7, 1.005), (8, 1.001)]"

definition EPS :: real where
  "EPS = 0.001"

definition SCALE_EPA :: real where
  "SCALE_EPA = 10.0"

definition MIN_TEAM_VALUE :: real where
  "MIN_TEAM_VALUE = 1.0"

section \<open>Core algorithm\<close>

record team =
  team_key :: string
  rank :: int
  epa :: jsnum
  win_prob :: jsnum

record components =
  epaFactor :: jsnum
  rankMul :: jsnum
  winFactor :: jsnum

text \<open>The field \<open>value\<close> of the source is \<open>value'\<close> here.\<close>

record teamValue =
  rawValue :: jsnum
  value' :: jsnum
  components :: components

text \<open>
  \<open>RANK_MULTIPLIERS[rank] || 1.0\<close>: a rank that is not a key of the table reads
  \<open>undefined\<close>, which is falsy.
\<close>

definition getRankMultiplier :: "int \<Rightarrow> jsnum" where
  "getRankMultiplier r =
     (case map_of RANK_MULTIPLIERS r of
        None \<Rightarrow> Num 1.0
      | Some m \<Rightarrow> js_or (Num m) (Num 1.0))"

definition computeTeamValue :: "'a team_scheme \<Rightarrow> teamValue" where
  "computeTeamValue t =
     (let epaFactor_l = js_max (Num 0.01) (js_div (epa t) (Num SCALE_EPA));
          rankMul_l = getRankMultiplier (rank t);
          winFactor_l = js_div (Num 1) (js_add (win_prob t) (Num EPS));
          rawValue_l = js_mul (js_mul epaFactor_l rankMul_l) winFactor_l;
          value_l = js_max (Num MIN_TEAM_VALUE) rawValue_l
      in \<lparr>rawValue = rawValue_l, value' = value_l,
          components = \<lparr>epaFactor = epaFactor_l, rankMul = rankMul_l, winFactor = winFactor_l\<rparr>\<rparr>)"

text \<open>\<open>{...t, computed: computeTeamValue(t)}\<close>: the team with one more field.\<close>

record computedTeam = team +
  computed :: teamValue

record alliance =
  teams :: "computedTeam list"
  allianceValue :: jsnum
  allianceEPA :: jsnum

definition computeAllianceValue :: "team list \<Rightarrow> alliance" where
  "computeAllianceValue teamObjs =
     (let teams_l = map (\<lambda>t. \<lparr>team_key = team_key t, rank = rank t, epa = epa t,
                                 win_prob = win_prob t, computed = computeTeamValue t\<rparr>) teamObjs;
          allianceValue_l = foldl (\<lambda>s t. js_add s (value' (computed t))) (Num 0) teams_l;
          allianceEPA_l = foldl (\<lambda>s t. js_add s (js_or (epa t) (Num 0))) (Num 0) teams_l
      in \<lparr>teams = teams_l, allianceValue = allianceValue_l, allianceEPA = allianceEPA_l\<rparr>)"

text \<open>
  The constants of \<open>suggestOverUnder\<close>, each a function of the two alliances, in the
  order of the source.
\<close>

definition round1 :: "jsnum \<Rightarrow> jsnum" where
  \<comment> \<open>the expression \<open>Math.round(x * 10) / 10\<close>, which the source writes out four times\<close>
  "round1 x = js_div (js_round (js_mul x (Num 10))) (Num 10)"

definition baseLine_of :: "'a alliance_scheme \<Rightarrow> 'b alliance_scheme \<Rightarrow> jsnum" where
  "baseLine_of redAlliance blueAlliance =
     round1 (js_div (js_add (allianceEPA redAlliance) (allianceEPA blueAlliance)) (Num 2))"

definition totalValue :: "'a alliance_scheme \<Rightarrow> 'b alliance_scheme \<Rightarrow> jsnum" where
  "totalValue redAlliance blueAlliance =
     js_add (allianceValue redAlliance) (allianceValue blueAlliance)"

definition redShare :: "'a alliance_scheme \<Rightarrow> 'b alliance_scheme \<Rightarrow> jsnum" where
  "redShare redAlliance blueAlliance =
     js_div (allianceValue redAlliance) (js_or (totalValue redAlliance blueAlliance) (Num 1))"

definition blueShare :: "'a alliance_scheme \<Rightarrow> 'b alliance_scheme \<Rightarrow> jsnum" where
  "blueShare redAlliance blueAlliance =
     js_div (allianceValue blueAlliance) (js_or (totalValue redAlliance blueAlliance) (Num 1))"

definition redDelta :: "'a alliance_scheme \<Rightarrow> 'b alliance_scheme \<Rightarrow> jsnum" where
  "redDelta redAlliance blueAlliance =
     js_mul (js_mul (js_sub (redShare redAlliance blueAlliance) (Num 0.5)) (Num 0.2))
       (baseLine_of redAlliance blueAlliance)"

definition blueDelta :: "'a alliance_scheme \<Rightarrow> 'b alliance_scheme \<Rightarrow> jsnum" where
  "blueDelta redAlliance blueAlliance =
     js_mul (js_mul (js_sub (blueShare redAlliance blueAlliance) (Num 0.5)) (Num 0.2))
       (baseLine_of redAlliance blueAlliance)"

definition redLine :: "'a alliance_scheme \<Rightarrow> 'b alliance_scheme \<Rightarrow> jsnum" where
  "redLine redAlliance blueAlliance =
     round1 (js_add (baseLine_of redAlliance blueAlliance) (redDelta redAlliance blueAlliance))"

definition blueLine :: "'a alliance_scheme \<Rightarrow> 'b alliance_scheme \<Rightarrow> jsnum" where
  "blueLine redAlliance blueAlliance =
     round1 (js_add (baseLine_of redAlliance blueAlliance) (blueDelta redAlliance blueAlliance))"

definition matchLine_of :: "'a alliance_scheme \<Rightarrow> 'b alliance_scheme \<Rightarrow> jsnum" where
  "matchLine_of redAlliance blueAlliance =
     round1 (js_div (js_add (redLine redAlliance blueAlliance) (blueLine redAlliance blueAlliance))
               (Num 2))"

definition avgValue :: "'a alliance_scheme \<Rightarrow> 'b alliance_scheme \<Rightarrow> jsnum" where
  "avgValue redAlliance blueAlliance =
     js_or (js_div (js_add (allianceValue redAlliance) (allianceValue blueAlliance)) (Num 2))
       (Num 1)"

definition redPayout :: "'a alliance_scheme \<Rightarrow> 'b alliance_scheme \<Rightarrow> jsnum" where
  "redPayout redAlliance blueAlliance =
     js_max (Num 1.01)
       (js_add (Num 1)
          (js_mul (js_sub (Num 1)
                     (js_div (allianceValue redAlliance) (avgValue redAlliance blueAlliance)))
             (Num 0.5)))"

definition bluePayout :: "'a alliance_scheme \<Rightarrow> 'b alliance_scheme \<Rightarrow> jsnum" where
  "bluePayout redAlliance blueAlliance =
     js_max (Num 1.01)
       (js_add (Num 1)
          (js_mul (js_sub (Num 1)
                     (js_div (allianceValue blueAlliance) (avgValue redAlliance blueAlliance)))
             (Num 0.5)))"

text \<open>
  The result. The field \<open>allianceValue\<close> of a side is \<open>sideValue\<close> here, the name being
  taken by the alliance record.
\<close>

record side =
  line :: jsnum
  sideValue :: jsnum
  payoutMultiplier :: jsnum

record perAlliance =
  red :: side
  blue :: side

record suggestion =
  baseLine :: jsnum
  matchLine :: jsnum
  perAlliance :: perAlliance

definition suggestOverUnder :: "'a alliance_scheme \<Rightarrow> 'b alliance_scheme \<Rightarrow> suggestion" where
  "suggestOverUnder redAlliance blueAlliance =
     \<lparr>baseLine = baseLine_of redAlliance blueAlliance,
      matchLine = matchLine_of redAlliance blueAlliance,
      perAlliance =
        \<lparr>red = \<lparr>line = redLine redAlliance blueAlliance,
                sideValue = allianceValue redAlliance,
                payoutMultiplier =
                  js_div (js_round (js_mul (redPayout redAlliance blueAlliance) (Num 100)))
                    (Num 100)\<rparr>,
         blue = \<lparr>line = blueLine redAlliance blueAlliance,
                 sideValue = allianceValue blueAlliance,
                 payoutMultiplier =
                   js_div (js_round (js_mul (bluePayout redAlliance blueAlliance) (Num 100)))
                     (Num 100)\<rparr>\<rparr>\<rparr>"

section \<open>The example request of the source\<close>

definition exampleRed :: "team list" where
  "exampleRed =
     [\<lparr>team_key = ''frc254'', rank = 1, epa = Num 38.5, win_prob = Num 0.78\<rparr>,
      \<lparr>team_key = ''frc1678'', rank = 3, epa = Num 28.4, win_prob = Num 0.62\<rparr>,
      \<lparr>team_key = ''frc971'', rank = 5, epa = Num 15.2, win_prob = Num 0.43\<rparr>]"

definition exampleBlue :: "team list" where
  "exampleBlue =
     [\<lparr>team_key = ''frc1114'', rank = 2, epa = Num 34.1, win_prob = Num 0.73\<rparr>,
      \<lparr>team_key = ''frc2056'', rank = 4, epa = Num 26.0, win_prob = Num 0.59\<rparr>,
      \<lparr>team_key = ''frc148'', rank = 6, epa = Num 14.9, win_prob = Num 0.41\<rparr>]"

text \<open>
  Two alliances of one team each, taken from the example request, with the win
  probability at the pole \<open>-EPS\<close> of the win factor.
\<close>

definition poleRed :: "team list" where
  "poleRed = [\<lparr>team_key = ''frc254'', rank = 1, epa = Num 38.5, win_prob = Num (- 0.001)\<rparr>]"

definition poleBlue :: "team list" where
  "poleBlue = [\<lparr>team_key = ''frc1114'', rank = 2, epa = Num 34.1, win_prob = Num (- 0.001)\<rparr>]"

section \<open>Auxiliary facts\<close>

lemma js_add_commute: "js_add a b = js_add b a"
  by (cases a; cases b) simp_all

lemma RANK_MULTIPLIERS_ge_1: "(k, m) \<in> set RANK_MULTIPLIERS \<Longrightarrow> 1 \<le> m"
  by (auto simp add: RANK_MULTIPLIERS_def)

lemma getRankMultiplier_Num:
  obtains m where "getRankMultiplier r = Num m" and "1 \<le> m"
proof (cases "map_of RANK_MULTIPLIERS r")
  case None
  then have "getRankMultiplier r = Num 1" by (simp add: getRankMultiplier_def)
  then show ?thesis using that by simp
next
  case (Some m)
  then have "1 \<le> m" using RANK_MULTIPLIERS_ge_1 map_of_SomeD by fast
  moreover from this Some have "getRankMultiplier r = Num m"
    by (simp add: getRankMultiplier_def)
  ultimately show ?thesis using that by simp
qed

text \<open>The result on finite inputs, away from the pole of \<open>winFactor\<close> and at it.\<close>

lemma computeTeamValue_regular:
  assumes "epa t = Num e" and "win_prob t = Num p" and "getRankMultiplier (rank t) = Num m"
    and "p + EPS \<noteq> 0"
  shows "computeTeamValue t =
    \<lparr>rawValue = Num (max 0.01 (e / 10) * m * (1 / (p + EPS))),
     value' = Num (max 1 (max 0.01 (e / 10) * m * (1 / (p + EPS)))),
     components = \<lparr>epaFactor = Num (max 0.01 (e / 10)), rankMul = Num m,
                   winFactor = Num (1 / (p + EPS))\<rparr>\<rparr>"
  using assms by (simp add: computeTeamValue_def Let_def SCALE_EPA_def MIN_TEAM_VALUE_def)

lemma computeTeamValue_singular:
  assumes "epa t = Num e" and "win_prob t = Num p" and "getRankMultiplier (rank t) = Num m"
    and "1 \<le> m" and "p + EPS = 0"
  shows "computeTeamValue t =
    \<lparr>rawValue = PosInf, value' = PosInf,
     components = \<lparr>epaFactor = Num (max 0.01 (e / 10)), rankMul = Num m,
                   winFactor = PosInf\<rparr>\<rparr>"
proof -
  have "0 < max 0.01 (e / 10) * m" using assms(4)
    by (intro mult_pos_pos) (simp_all add: max_def)
  then show ?thesis
    using assms by (simp add: computeTeamValue_def Let_def SCALE_EPA_def MIN_TEAM_VALUE_def)
qed

lemma round1_Num: "round1 (Num x) = Num (of_int \<lfloor>x * 10 + 1 / 2\<rfloor> / 10)"
  by (simp add: round1_def)

lemma round1_tenth: "round1 (Num (of_int n / 10)) = Num (of_int n / 10)"
proof -
  have "\<lfloor>(of_int n :: real) + 1 / 2\<rfloor> = n" by linarith
  then show ?thesis by (simp add: round1_Num)
qed

lemma baseLine_of_Num:
  assumes "allianceEPA A = Num ea" and "allianceEPA B = Num eb"
  shows "baseLine_of A B = Num (of_int \<lfloor>(ea + eb) / 2 * 10 + 1 / 2\<rfloor> / 10)"
  using assms by (simp add: baseLine_of_def round1_Num)

lemma round_cents_ge:
  fixes y :: real
  assumes "1.01 \<le> y"
  shows "(1.01 :: real) \<le> of_int \<lfloor>y * 100 + 1 / 2\<rfloor> / 100"
proof -
  have "(of_int 101 :: real) \<le> y * 100 + 1 / 2" using assms by simp
  then have "101 \<le> \<lfloor>y * 100 + 1 / 2\<rfloor>" by (simp only: le_floor_iff)
  then have "(101 :: real) \<le> of_int \<lfloor>y * 100 + 1 / 2\<rfloor>" by linarith
  then show ?thesis by simp
qed

lemma round_cents_floor:
  assumes "1.01 \<le> y"
  shows "js_le (Num 1.01) (js_div (js_round (js_mul (Num y) (Num 100))) (Num 100))"
proof -
  have "js_div (js_round (js_mul (Num y) (Num 100))) (Num 100)
          = Num (of_int \<lfloor>y * 100 + 1 / 2\<rfloor> / 100)"
    by simp
  then show ?thesis using round_cents_ge [OF assms] by (simp only: js_le.simps)
qed

lemma payout_Num:
  assumes "a \<noteq> 0"
  shows "js_max (Num 1.01)
           (js_add (Num 1) (js_mul (js_sub (Num 1) (js_div (Num v) (Num a))) (Num 0.5)))
         = Num (max 1.01 (1 + (1 - v / a) * 0.5))"
  using assms by (simp add: js_sub_def)

lemma avgValue_Num:
  assumes "allianceValue A = Num rv" and "allianceValue B = Num bv"
  shows "avgValue A B = Num (if (rv + bv) / 2 = 0 then 1 else (rv + bv) / 2)"
  using assms by (simp add: avgValue_def)

lemma avgValue_finite_side:
  assumes "allianceValue A = Num v \<or> allianceValue B = Num v"
  shows "(\<exists>a. avgValue A B = Num a \<and> a \<noteq> 0) \<or> avgValue A B = PosInf \<or> avgValue A B = NegInf"
proof (cases "\<exists>x y. allianceValue A = Num x \<and> allianceValue B = Num y")
  case True
  then obtain x y where xy: "allianceValue A = Num x" "allianceValue B = Num y" by blast
  define a where "a = (if (x + y) / 2 = 0 then 1 else (x + y) / 2)"
  have "avgValue A B = Num a" by (simp add: avgValue_Num [OF xy] a_def)
  moreover have "a \<noteq> 0" by (simp add: a_def)
  ultimately show ?thesis by blast
next
  case False
  with assms show ?thesis
    by (cases "allianceValue A"; cases "allianceValue B") (simp_all add: avgValue_def)
qed

lemma payout_cents_floor:
  assumes "(\<exists>a. avg = Num a \<and> a \<noteq> 0) \<or> avg = PosInf \<or> avg = NegInf"
  shows "js_le (Num 1.01)
     (js_div (js_round (js_mul (js_max (Num 1.01)
        (js_add (Num 1) (js_mul (js_sub (Num 1) (js_div (Num v) avg)) (Num 0.5))))
        (Num 100))) (Num 100))"
  using assms
proof (elim disjE exE conjE)
  fix a :: real
  assume avg: "avg = Num a" and a: "a \<noteq> 0"
  have "1.01 \<le> max 1.01 (1 + (1 - v / a) * 0.5)"
    by (rule max.cobounded1)
  then show ?thesis
    unfolding avg payout_Num [OF a] by (rule round_cents_floor)
next
  assume "avg = PosInf"
  then show ?thesis by (simp add: js_sub_def)
next
  assume "avg = NegInf"
  then show ?thesis by (simp add: js_sub_def)
qed

lemma round1_near:
  fixes y :: real
  shows "\<bar>of_int \<lfloor>y * 10 + 1 / 2\<rfloor> / 10 - y\<bar> \<le> 1 / 20"
proof -
  have "of_int \<lfloor>y * 10 + 1 / 2\<rfloor> \<le> y * 10 + 1 / 2"
    and "y * 10 + 1 / 2 < of_int \<lfloor>y * 10 + 1 / 2\<rfloor> + 1"
    by linarith+
  then show ?thesis by linarith
qed

section \<open>Properties of the team value\<close>

text \<open>
  C2. For every team with a finite \<open>epa\<close> and \<open>win_prob\<close> and any rank, the returned
  \<open>value\<close> is at least \<open>MIN_TEAM_VALUE\<close> = 1.0. The clamp is a one-sided max: \<open>value\<close> is
  never below \<open>rawValue\<close>, and it is \<open>rawValue\<close> itself whenever \<open>rawValue\<close> is at or above
  the floor. \<open>rawValue\<close> can lie below the floor: it does for a team of unknown rank with
  \<open>epa\<close> -5 and \<open>win_prob\<close> 0.5.
\<close>

theorem computeTeamValue_floor:
  fixes k :: string and r :: int and e p :: real
  defines "v \<equiv> computeTeamValue \<lparr>team_key = k, rank = r, epa = Num e, win_prob = Num p\<rparr>"
  shows "js_le (Num MIN_TEAM_VALUE) (value' v) \<and>
         js_le (rawValue v) (value' v) \<and>
         (js_le (Num MIN_TEAM_VALUE) (rawValue v) \<longrightarrow> value' v = rawValue v) \<and>
         js_lt (rawValue (computeTeamValue
                  \<lparr>team_key = ''frc148'', rank = 9, epa = Num (- 5), win_prob = Num 0.5\<rparr>))
               (Num MIN_TEAM_VALUE)"
proof -
  obtain m where m: "getRankMultiplier r = Num m" "1 \<le> m"
    by (rule getRankMultiplier_Num)
  have below: "js_lt (rawValue (computeTeamValue
                  \<lparr>team_key = ''frc148'', rank = 9, epa = Num (- 5), win_prob = Num 0.5\<rparr>))
               (Num MIN_TEAM_VALUE)"
    by (simp add: computeTeamValue_def getRankMultiplier_def RANK_MULTIPLIERS_def
          SCALE_EPA_def EPS_def MIN_TEAM_VALUE_def Let_def)
  show ?thesis
  proof (cases "p + EPS = 0")
    case True
    then have "v = \<lparr>rawValue = PosInf, value' = PosInf,
       components = \<lparr>epaFactor = Num (max 0.01 (e / 10)), rankMul = Num m,
                     winFactor = PosInf\<rparr>\<rparr>"
      unfolding v_def using m by (intro computeTeamValue_singular) simp_all
    then show ?thesis using below by simp
  next
    case False
    then have "v = \<lparr>rawValue = Num (max 0.01 (e / 10) * m * (1 / (p + EPS))),
       value' = Num (max 1 (max 0.01 (e / 10) * m * (1 / (p + EPS)))),
       components = \<lparr>epaFactor = Num (max 0.01 (e / 10)), rankMul = Num m,
                     winFactor = Num (1 / (p + EPS))\<rparr>\<rparr>"
      unfolding v_def using m by (intro computeTeamValue_regular) simp_all
    then show ?thesis using below by (simp add: MIN_TEAM_VALUE_def)
  qed
qed

theorem computeTeamValue_floor_witness:
  "js_le (Num MIN_TEAM_VALUE)
     (rawValue (computeTeamValue
        \<lparr>team_key = ''frc254'', rank = 1, epa = Num 38.5, win_prob = Num 0.78\<rparr>)) \<and>
   value' (computeTeamValue
        \<lparr>team_key = ''frc254'', rank = 1, epa = Num 38.5, win_prob = Num 0.78\<rparr>) =
   rawValue (computeTeamValue
        \<lparr>team_key = ''frc254'', rank = 1, epa = Num 38.5, win_prob = Num 0.78\<rparr>)"
proof -
  have h: "js_le (Num MIN_TEAM_VALUE)
     (rawValue (computeTeamValue
        \<lparr>team_key = ''frc254'', rank = 1, epa = Num 38.5, win_prob = Num 0.78\<rparr>))"
    by (simp add: computeTeamValue_def getRankMultiplier_def RANK_MULTIPLIERS_def
          SCALE_EPA_def EPS_def MIN_TEAM_VALUE_def Let_def)
  with computeTeamValue_floor [of "''frc254''" 1 "38.5" "0.78"] show ?thesis by blast
qed

text \<open>
  C3, as the code has it. For every finite \<open>epa\<close> (zero and negative too), every rank and
  every finite \<open>win_prob\<close> other than \<open>-EPS\<close> = -0.001 (inside or outside [0,1]),
  \<open>computeTeamValue\<close> returns a result and each of its five numbers (\<open>rawValue\<close>, \<open>value\<close>,
  \<open>epaFactor\<close>, \<open>rankMul\<close>, \<open>winFactor\<close>) is finite, the arithmetic being exact.
\<close>

theorem computeTeamValue_finite:
  fixes k :: string and r :: int and e p :: real
  assumes "p \<noteq> - EPS"
  defines "v \<equiv> computeTeamValue \<lparr>team_key = k, rank = r, epa = Num e, win_prob = Num p\<rparr>"
  shows "js_isFinite (rawValue v) \<and> js_isFinite (value' v) \<and>
         js_isFinite (epaFactor (components v)) \<and> js_isFinite (rankMul (components v)) \<and>
         js_isFinite (winFactor (components v))"
proof -
  obtain m where m: "getRankMultiplier r = Num m" "1 \<le> m"
    by (rule getRankMultiplier_Num)
  from assms(1) have "p + EPS \<noteq> 0" by simp
  then have "v = \<lparr>rawValue = Num (max 0.01 (e / 10) * m * (1 / (p + EPS))),
     value' = Num (max 1 (max 0.01 (e / 10) * m * (1 / (p + EPS)))),
     components = \<lparr>epaFactor = Num (max 0.01 (e / 10)), rankMul = Num m,
                   winFactor = Num (1 / (p + EPS))\<rparr>\<rparr>"
    unfolding v_def using m by (intro computeTeamValue_regular) simp_all
  then show ?thesis by simp
qed

theorem computeTeamValue_finite_witness:
  "(0 :: real) \<noteq> - EPS \<and>
   js_isFinite (value' (computeTeamValue
      \<lparr>team_key = ''frc971'', rank = 5, epa = Num (- 5), win_prob = Num 0\<rparr>)) \<and>
   js_isFinite (winFactor (components (computeTeamValue
      \<lparr>team_key = ''frc971'', rank = 5, epa = Num (- 5), win_prob = Num 0\<rparr>)))"
  using computeTeamValue_finite [of 0 "''frc971''" 5 "- 5"] by (simp add: EPS_def)

text \<open>
  C3 as stated fails: at \<open>win_prob = -0.001\<close> the divisor \<open>win_prob + EPS\<close> is zero, and
  \<open>winFactor\<close>, \<open>rawValue\<close> and \<open>value\<close> are all Infinity.
\<close>

theorem computeTeamValue_infinite_at_minus_EPS:
  "winFactor (components (computeTeamValue
       \<lparr>team_key = ''frc254'', rank = 1, epa = Num 38.5, win_prob = Num (- 0.001)\<rparr>)) = PosInf \<and>
   rawValue (computeTeamValue
       \<lparr>team_key = ''frc254'', rank = 1, epa = Num 38.5, win_prob = Num (- 0.001)\<rparr>) = PosInf \<and>
   value' (computeTeamValue
       \<lparr>team_key = ''frc254'', rank = 1, epa = Num 38.5, win_prob = Num (- 0.001)\<rparr>) = PosInf \<and>
   \<not> js_isFinite (value' (computeTeamValue
       \<lparr>team_key = ''frc254'', rank = 1, epa = Num 38.5, win_prob = Num (- 0.001)\<rparr>))"
  by (simp add: computeTeamValue_def getRankMultiplier_def RANK_MULTIPLIERS_def
        SCALE_EPA_def EPS_def MIN_TEAM_VALUE_def Let_def)

text \<open>
  C4. With rank and \<open>epa\<close> fixed, the value does not grow with the win probability: for
  win probabilities \<open>p1 \<le> p2\<close> the value at \<open>p1\<close> is at least the value at \<open>p2\<close>; and where
  the raw value at \<open>p1\<close> is at or below the floor, both values are the floor
  \<open>MIN_TEAM_VALUE\<close>. A win probability is a number of [0,1]; the theorem asks only that
  \<open>p1\<close> is above \<open>-EPS\<close>.
\<close>

theorem computeTeamValue_antimono_win_prob:
  fixes k :: string and r :: int and e p1 p2 :: real
  assumes "- EPS < p1" and "p1 \<le> p2"
  defines "v1 \<equiv> computeTeamValue \<lparr>team_key = k, rank = r, epa = Num e, win_prob = Num p1\<rparr>"
      and "v2 \<equiv> computeTeamValue \<lparr>team_key = k, rank = r, epa = Num e, win_prob = Num p2\<rparr>"
  shows "js_le (value' v2) (value' v1) \<and>
         (js_le (rawValue v1) (Num MIN_TEAM_VALUE) \<longrightarrow>
            value' v1 = Num MIN_TEAM_VALUE \<and> value' v2 = Num MIN_TEAM_VALUE)"
proof -
  obtain m where m: "getRankMultiplier r = Num m" "1 \<le> m"
    by (rule getRankMultiplier_Num)
  let ?c = "max 0.01 (e / 10) * m"
  have c: "0 \<le> ?c" using m(2) by simp
  from assms(1,2) have pos: "0 < p1 + EPS" "0 < p2 + EPS" by simp_all
  have v1: "v1 = \<lparr>rawValue = Num (?c * (1 / (p1 + EPS))),
       value' = Num (max 1 (?c * (1 / (p1 + EPS)))),
       components = \<lparr>epaFactor = Num (max 0.01 (e / 10)), rankMul = Num m,
                     winFactor = Num (1 / (p1 + EPS))\<rparr>\<rparr>"
    unfolding v1_def using pos m by (intro computeTeamValue_regular) simp_all
  have v2: "v2 = \<lparr>rawValue = Num (?c * (1 / (p2 + EPS))),
       value' = Num (max 1 (?c * (1 / (p2 + EPS)))),
       components = \<lparr>epaFactor = Num (max 0.01 (e / 10)), rankMul = Num m,
                     winFactor = Num (1 / (p2 + EPS))\<rparr>\<rparr>"
    unfolding v2_def using pos m by (intro computeTeamValue_regular) simp_all
  have "1 / (p2 + EPS) \<le> 1 / (p1 + EPS)"
    using pos assms(2) by (simp add: frac_le)
  then have raw: "?c * (1 / (p2 + EPS)) \<le> ?c * (1 / (p1 + EPS))"
    using c by (rule mult_left_mono)
  then have "max 1 (?c * (1 / (p2 + EPS))) \<le> max 1 (?c * (1 / (p1 + EPS)))"
    by (rule max.mono [OF order_refl])
  moreover have "max 1 (?c * (1 / (p1 + EPS))) = 1 \<and> max 1 (?c * (1 / (p2 + EPS))) = 1"
    if "?c * (1 / (p1 + EPS)) \<le> 1"
    using that raw by (intro conjI max_absorb1) linarith+
  ultimately show ?thesis
    unfolding v1 v2 by (simp add: MIN_TEAM_VALUE_def del: max.bounded_iff)
qed

theorem computeTeamValue_antimono_win_prob_witness:
  "- EPS < 0.43 \<and> (0.43 :: real) \<le> 0.78 \<and>
   js_le (value' (computeTeamValue
            \<lparr>team_key = ''frc971'', rank = 5, epa = Num 15.2, win_prob = Num 0.78\<rparr>))
         (value' (computeTeamValue
            \<lparr>team_key = ''frc971'', rank = 5, epa = Num 15.2, win_prob = Num 0.43\<rparr>)) \<and>
   js_le (rawValue (computeTeamValue
            \<lparr>team_key = ''frc148'', rank = 6, epa = Num 1, win_prob = Num 0.41\<rparr>))
         (Num MIN_TEAM_VALUE) \<and>
   value' (computeTeamValue
            \<lparr>team_key = ''frc148'', rank = 6, epa = Num 1, win_prob = Num 0.41\<rparr>)
     = Num MIN_TEAM_VALUE \<and>
   value' (computeTeamValue
            \<lparr>team_key = ''frc148'', rank = 6, epa = Num 1, win_prob = Num 0.9\<rparr>)
     = Num MIN_TEAM_VALUE"
proof -
  have h: "- EPS < 0.43" "(0.43 :: real) \<le> 0.78" "- EPS < 0.41" "(0.41 :: real) \<le> 0.9"
    by (simp_all add: EPS_def)
  have low: "js_le (rawValue (computeTeamValue
            \<lparr>team_key = ''frc148'', rank = 6, epa = Num 1, win_prob = Num 0.41\<rparr>))
         (Num MIN_TEAM_VALUE)"
    by (simp add: computeTeamValue_def getRankMultiplier_def RANK_MULTIPLIERS_def
          SCALE_EPA_def EPS_def MIN_TEAM_VALUE_def Let_def)
  show ?thesis
    using h low
      computeTeamValue_antimono_win_prob [OF h(1,2), of "''frc971''" 5 "15.2"]
      computeTeamValue_antimono_win_prob [OF h(3,4), of "''frc148''" 6 1]
    by blast
qed

text \<open>
  C5. With rank and \<open>win_prob\<close> fixed, the value does not fall when \<open>epa\<close> grows: for
  \<open>e1 \<le> e2\<close> the value at \<open>e1\<close> is at most the value at \<open>e2\<close>, for every finite \<open>win_prob\<close>
  (where both are clamped at the floor the two are equal).
\<close>

theorem computeTeamValue_mono_epa:
  fixes k :: string and r :: int and e1 e2 p :: real
  assumes "e1 \<le> e2"
  shows "js_le (value' (computeTeamValue
                  \<lparr>team_key = k, rank = r, epa = Num e1, win_prob = Num p\<rparr>))
               (value' (computeTeamValue
                  \<lparr>team_key = k, rank = r, epa = Num e2, win_prob = Num p\<rparr>))"
proof -
  obtain m where m: "getRankMultiplier r = Num m" "1 \<le> m"
    by (rule getRankMultiplier_Num)
  show ?thesis
  proof (cases "p + EPS = 0")
    case True
    then show ?thesis using m
      by (simp add: computeTeamValue_singular [where m = m and p = p])
  next
    case False
    let ?w = "1 / (p + EPS)"
    have v: "value' (computeTeamValue \<lparr>team_key = k, rank = r, epa = Num e, win_prob = Num p\<rparr>)
        = Num (max 1 (max 0.01 (e / 10) * m * ?w))" for e
      using False m by (subst computeTeamValue_regular [where e = e and p = p and m = m]) simp_all
    have f: "max 0.01 (e1 / 10) * m \<le> max 0.01 (e2 / 10) * m"
      using assms m(2) by (intro mult_right_mono) simp_all
    show ?thesis
    proof (cases "0 \<le> ?w")
      case True
      with f have "max 0.01 (e1 / 10) * m * ?w \<le> max 0.01 (e2 / 10) * m * ?w"
        by (rule mult_right_mono)
      then show ?thesis unfolding v by simp
    next
      case False
      then have "?w \<le> 0" by simp
      moreover have "0 \<le> max 0.01 (e / 10) * m" for e using m(2) by simp
      ultimately have le0: "max 0.01 (e / 10) * m * ?w \<le> 0" for e
        by (rule mult_nonneg_nonpos [rotated])
      have "max 1 (max 0.01 (e / 10) * m * ?w) = 1" for e
        by (rule max_absorb1, rule order_trans [OF le0 zero_le_one])
      then show ?thesis unfolding v by simp
    qed
  qed
qed

theorem computeTeamValue_mono_epa_witness:
  "(15.2 :: real) \<le> 38.5 \<and>
   js_le (value' (computeTeamValue
            \<lparr>team_key = ''frc971'', rank = 5, epa = Num 15.2, win_prob = Num 0.43\<rparr>))
         (value' (computeTeamValue
            \<lparr>team_key = ''frc971'', rank = 5, epa = Num 38.5, win_prob = Num 0.43\<rparr>))"
proof -
  have h: "(15.2 :: real) \<le> 38.5" by simp
  show ?thesis using h computeTeamValue_mono_epa [OF h, of "''frc971''" 5 "0.43"] by blast
qed

section \<open>Properties of the alliance value\<close>

text \<open>
  C7. \<open>computeAllianceValue\<close> applied to the empty sequence of teams returns a result (no
  step of the source can throw on an empty array: \<open>map\<close> gives the empty array and each
  \<open>reduce\<close> has the initial value 0) whose \<open>allianceValue\<close> and \<open>allianceEPA\<close> are both 0.
\<close>

theorem computeAllianceValue_empty:
  "allianceValue (computeAllianceValue []) = Num 0 \<and>
   allianceEPA (computeAllianceValue []) = Num 0 \<and>
   teams (computeAllianceValue []) = []"
  by (simp add: computeAllianceValue_def)

text \<open>
  C9. On the example request (red EPAs 38.5, 28.4, 15.2; blue EPAs 34.1, 26.0, 14.9) the
  pipeline gives \<open>allianceEPA\<close> 82.1 for red and 75.0 for blue, and the base line is
  \<open>Math.round(78.55 * 10) / 10\<close> = 78.6, the tie 785.5 going up.
\<close>

theorem example_scenario:
  "allianceEPA (computeAllianceValue exampleRed) = Num 82.1 \<and>
   allianceEPA (computeAllianceValue exampleBlue) = Num 75.0 \<and>
   baseLine (suggestOverUnder (computeAllianceValue exampleRed)
               (computeAllianceValue exampleBlue)) = Num 78.6"
  by (simp add: suggestOverUnder_def baseLine_of_def round1_def computeAllianceValue_def
        exampleRed_def exampleBlue_def)

section \<open>Properties of the suggested line\<close>

text \<open>
  C1, as the code has it. For every pair of alliances, a side whose own alliance value is
  a finite number gets, after the rounding to two decimals, a \<open>payoutMultiplier\<close> of at
  least 1.01, whatever the alliance value of the other side: finite at any skew, infinite
  or NaN.
\<close>

theorem suggestOverUnder_payout_floor:
  fixes rv bv :: real and ea eb :: jsnum and ta tb :: "computedTeam list"
    and A B :: alliance
  shows "js_le (Num 1.01) (payoutMultiplier (red (perAlliance (suggestOverUnder
           \<lparr>teams = ta, allianceValue = Num rv, allianceEPA = ea\<rparr> B)))) \<and>
         js_le (Num 1.01) (payoutMultiplier (blue (perAlliance (suggestOverUnder
           A \<lparr>teams = tb, allianceValue = Num bv, allianceEPA = eb\<rparr>))))"
proof
  let ?A = "\<lparr>teams = ta, allianceValue = Num rv, allianceEPA = ea\<rparr>"
  have "(\<exists>a. avgValue ?A B = Num a \<and> a \<noteq> 0) \<or> avgValue ?A B = PosInf \<or>
        avgValue ?A B = NegInf"
    by (rule avgValue_finite_side [where v = rv]) simp
  from payout_cents_floor [OF this, of rv]
  show "js_le (Num 1.01) (payoutMultiplier (red (perAlliance (suggestOverUnder ?A B))))"
    by (simp add: suggestOverUnder_def redPayout_def)
next
  let ?B = "\<lparr>teams = tb, allianceValue = Num bv, allianceEPA = eb\<rparr>"
  have "(\<exists>a. avgValue A ?B = Num a \<and> a \<noteq> 0) \<or> avgValue A ?B = PosInf \<or>
        avgValue A ?B = NegInf"
    by (rule avgValue_finite_side [where v = bv]) simp
  from payout_cents_floor [OF this, of bv]
  show "js_le (Num 1.01) (payoutMultiplier (blue (perAlliance (suggestOverUnder A ?B))))"
    by (simp add: suggestOverUnder_def bluePayout_def)
qed

text \<open>
  C1 as stated fails: the red alliance of one team with \<open>win_prob = -0.001\<close> has the
  alliance value Infinity, and against the blue alliance of the example request its payout
  multiplier is NaN, which is not at least 1.01.
\<close>

theorem suggestOverUnder_payout_NaN_at_pole:
  "allianceValue (computeAllianceValue poleRed) = PosInf \<and>
   payoutMultiplier (red (perAlliance (suggestOverUnder
      (computeAllianceValue poleRed) (computeAllianceValue exampleBlue)))) = NaN \<and>
   \<not> js_le (Num 1.01) (payoutMultiplier (red (perAlliance (suggestOverUnder
      (computeAllianceValue poleRed) (computeAllianceValue exampleBlue)))))"
  by (simp add: suggestOverUnder_def redPayout_def avgValue_def js_sub_def
        computeAllianceValue_def computeTeamValue_def getRankMultiplier_def
        RANK_MULTIPLIERS_def SCALE_EPA_def EPS_def MIN_TEAM_VALUE_def Let_def
        poleRed_def exampleBlue_def)

text \<open>
  C6, as the code has it. For two alliances with the same finite alliance value, a total
  value above 0 that does not overflow, and finite EPAs whose base line does not overflow,
  both lines are the base line, the match line is the base line too, and both payout
  multipliers are 1.01 (the payout before the floor being exactly 1.0).
\<close>

theorem suggestOverUnder_equal_values:
  fixes rv bv ea eb :: real and ta tb :: "computedTeam list"
  assumes "rv = bv" and "0 < rv + bv" and "rv + bv \<le> MAX_VALUE"
    and "\<bar>ea + eb\<bar> * 10 \<le> MAX_VALUE"
  defines "s \<equiv> suggestOverUnder
     \<lparr>teams = ta, allianceValue = Num rv, allianceEPA = Num ea\<rparr>
     \<lparr>teams = tb, allianceValue = Num bv, allianceEPA = Num eb\<rparr>"
  shows "line (red (perAlliance s)) = baseLine s \<and>
         line (blue (perAlliance s)) = baseLine s \<and>
         matchLine s = baseLine s \<and>
         payoutMultiplier (red (perAlliance s)) = Num 1.01 \<and>
         payoutMultiplier (blue (perAlliance s)) = Num 1.01 \<and>
         js_add (Num 1) (js_mul (js_sub (Num 1) (js_div (Num rv) (avgValue
             \<lparr>teams = ta, allianceValue = Num rv, allianceEPA = Num ea\<rparr>
             \<lparr>teams = tb, allianceValue = Num bv, allianceEPA = Num eb\<rparr>))) (Num 0.5)) = Num 1"
proof -
  let ?A = "\<lparr>teams = ta, allianceValue = Num rv, allianceEPA = Num ea\<rparr>"
  let ?B = "\<lparr>teams = tb, allianceValue = Num bv, allianceEPA = Num eb\<rparr>"
  define n where "n = \<lfloor>(ea + eb) / 2 * 10 + 1 / 2\<rfloor>"
  from assms(1,2) have nz: "bv \<noteq> 0" by auto
  have base: "baseLine_of ?A ?B = Num (of_int n / 10)"
    by (simp add: baseLine_of_Num n_def)
  have share: "redShare ?A ?B = Num (1 / 2)" "blueShare ?A ?B = Num (1 / 2)"
    using assms(1) nz by (simp_all add: redShare_def blueShare_def totalValue_def)
  have delta: "redDelta ?A ?B = Num 0" "blueDelta ?A ?B = Num 0"
    by (simp_all add: redDelta_def blueDelta_def share base js_sub_def)
  have lines: "redLine ?A ?B = Num (of_int n / 10)" "blueLine ?A ?B = Num (of_int n / 10)"
    by (simp_all add: redLine_def blueLine_def delta base round1_tenth)
  have match: "matchLine_of ?A ?B = Num (of_int n / 10)"
    by (simp add: matchLine_of_def lines round1_tenth)
  have avg: "avgValue ?A ?B = Num bv"
    using assms(1) nz by (simp add: avgValue_Num)
  have pre: "js_add (Num 1) (js_mul (js_sub (Num 1) (js_div (Num rv) (avgValue ?A ?B)))
               (Num 0.5)) = Num 1"
    unfolding avg using assms(1) nz by (simp add: js_sub_def)
  have pay: "redPayout ?A ?B = Num 1.01" "bluePayout ?A ?B = Num 1.01"
    unfolding redPayout_def bluePayout_def avg
    using assms(1) nz by (simp_all add: js_sub_def)
  show ?thesis
    unfolding s_def using pre by (simp add: suggestOverUnder_def base lines match pay)
qed

theorem suggestOverUnder_equal_values_witness:
  "(3 :: real) = 3 \<and> (0 :: real) < 3 + 3 \<and> 3 + 3 \<le> MAX_VALUE \<and>
   \<bar>82.1 + 75\<bar> * 10 \<le> MAX_VALUE \<and>
   line (red (perAlliance (suggestOverUnder
     \<lparr>teams = [], allianceValue = Num 3, allianceEPA = Num 82.1\<rparr>
     \<lparr>teams = [], allianceValue = Num 3, allianceEPA = Num 75\<rparr>))) = Num 78.6 \<and>
   baseLine (suggestOverUnder
     \<lparr>teams = [], allianceValue = Num 3, allianceEPA = Num 82.1\<rparr>
     \<lparr>teams = [], allianceValue = Num 3, allianceEPA = Num 75\<rparr>) = Num 78.6 \<and>
   payoutMultiplier (red (perAlliance (suggestOverUnder
     \<lparr>teams = [], allianceValue = Num 3, allianceEPA = Num 82.1\<rparr>
     \<lparr>teams = [], allianceValue = Num 3, allianceEPA = Num 75\<rparr>))) = Num 1.01"
proof -
  have h: "(3 :: real) = 3" "(0 :: real) < 3 + 3" "3 + 3 \<le> MAX_VALUE"
          "\<bar>82.1 + 75\<bar> * 10 \<le> MAX_VALUE"
    by (simp_all add: MAX_VALUE_def)
  have b: "baseLine (suggestOverUnder
     \<lparr>teams = [], allianceValue = Num 3, allianceEPA = Num 82.1\<rparr>
     \<lparr>teams = [], allianceValue = Num 3, allianceEPA = Num 75\<rparr>) = Num 78.6"
    by (simp add: suggestOverUnder_def baseLine_of_def round1_def)
  show ?thesis
    using h b suggestOverUnder_equal_values [OF h, of "[]" "[]"] by simp
qed

text \<open>
  C6 as stated fails: two alliances of one team each with \<open>win_prob = -0.001\<close> have the
  same alliance value, Infinity, and a total value above 0, yet the red line and the red
  payout multiplier are NaN while the base line is 36.3.
\<close>

theorem suggestOverUnder_equal_infinite_values:
  "allianceValue (computeAllianceValue poleRed) = allianceValue (computeAllianceValue poleBlue) \<and>
   js_lt (Num 0) (totalValue (computeAllianceValue poleRed) (computeAllianceValue poleBlue)) \<and>
   baseLine (suggestOverUnder (computeAllianceValue poleRed) (computeAllianceValue poleBlue))
     = Num 36.3 \<and>
   line (red (perAlliance (suggestOverUnder
      (computeAllianceValue poleRed) (computeAllianceValue poleBlue)))) = NaN \<and>
   payoutMultiplier (red (perAlliance (suggestOverUnder
      (computeAllianceValue poleRed) (computeAllianceValue poleBlue)))) = NaN"
  by (simp add: suggestOverUnder_def baseLine_of_def round1_def totalValue_def redLine_def
        redDelta_def redShare_def redPayout_def avgValue_def js_sub_def
        computeAllianceValue_def computeTeamValue_def getRankMultiplier_def
        RANK_MULTIPLIERS_def SCALE_EPA_def EPS_def MIN_TEAM_VALUE_def Let_def
        poleRed_def poleBlue_def)

text \<open>
  C8, as the code has it. For every pair of alliances with finite values and EPAs (the
  base line not overflowing) whose two value shares lie in [0,1], each side's adjustment
  \<open>delta = (share - 0.5) * 0.2 * baseLine\<close> is at most \<open>0.1 * |baseLine|\<close> in absolute
  value, and each side's returned line, which is \<open>baseLine + delta\<close> rounded to one
  decimal, is at most \<open>0.1 * |baseLine| + 0.05\<close> away from the returned base line.
\<close>

theorem suggestOverUnder_delta_bound:
  fixes rv bv ea eb :: real and ta tb :: "computedTeam list"
  defines "A \<equiv> \<lparr>teams = ta, allianceValue = Num rv, allianceEPA = Num ea\<rparr>"
      and "B \<equiv> \<lparr>teams = tb, allianceValue = Num bv, allianceEPA = Num eb\<rparr>"
  assumes "js_le (Num 0) (redShare A B)" and "js_le (redShare A B) (Num 1)"
      and "js_le (Num 0) (blueShare A B)" and "js_le (blueShare A B) (Num 1)"
      and "\<bar>ea + eb\<bar> * 10 \<le> MAX_VALUE"
  shows "\<exists>b dr db lr lb.
           baseLine_of A B = Num b \<and> baseLine (suggestOverUnder A B) = Num b \<and>
           redDelta A B = Num dr \<and> \<bar>dr\<bar> \<le> 0.1 * \<bar>b\<bar> \<and>
           blueDelta A B = Num db \<and> \<bar>db\<bar> \<le> 0.1 * \<bar>b\<bar> \<and>
           line (red (perAlliance (suggestOverUnder A B))) = Num lr \<and>
           \<bar>lr - b\<bar> \<le> 0.1 * \<bar>b\<bar> + 0.05 \<and>
           line (blue (perAlliance (suggestOverUnder A B))) = Num lb \<and>
           \<bar>lb - b\<bar> \<le> 0.1 * \<bar>b\<bar> + 0.05"
proof -
  define b where "b = of_int \<lfloor>(ea + eb) / 2 * 10 + 1 / 2\<rfloor> / (10 :: real)"
  define t where "t = (if rv + bv = 0 then 1 else rv + bv)"
  define dr where "dr = (rv / t - 0.5) * 0.2 * b"
  define db where "db = (bv / t - 0.5) * 0.2 * b"
  define lr where "lr = of_int \<lfloor>(b + dr) * 10 + 1 / 2\<rfloor> / (10 :: real)"
  define lb where "lb = of_int \<lfloor>(b + db) * 10 + 1 / 2\<rfloor> / (10 :: real)"
  have base: "baseLine_of A B = Num b"
    by (simp add: A_def B_def baseLine_of_Num b_def)
  have tz: "t \<noteq> 0" by (simp add: t_def)
  have shr: "redShare A B = Num (rv / t)" and shb: "blueShare A B = Num (bv / t)"
    using tz by (simp_all add: A_def B_def redShare_def blueShare_def totalValue_def t_def)
  have bound: "\<bar>(s - 0.5) * 0.2 * b\<bar> \<le> 0.1 * \<bar>b\<bar>" if "0 \<le> s" and "s \<le> 1" for s :: real
  proof -
    from that have "\<bar>s - 0.5\<bar> \<le> 0.5" by linarith
    then have "\<bar>s - 0.5\<bar> * (0.2 * \<bar>b\<bar>) \<le> 0.5 * (0.2 * \<bar>b\<bar>)"
      by (intro mult_right_mono) simp_all
    then show ?thesis by (simp add: abs_mult)
  qed
  have dr: "redDelta A B = Num dr"
    by (simp add: redDelta_def shr base js_sub_def dr_def)
  have db: "blueDelta A B = Num db"
    by (simp add: blueDelta_def shb base js_sub_def db_def)
  from assms(3,4) have bdr: "\<bar>dr\<bar> \<le> 0.1 * \<bar>b\<bar>"
    unfolding shr dr_def by (intro bound) simp_all
  from assms(5,6) have bdb: "\<bar>db\<bar> \<le> 0.1 * \<bar>b\<bar>"
    unfolding shb db_def by (intro bound) simp_all
  have lr: "redLine A B = Num lr"
    by (simp only: redLine_def base dr js_add.simps round1_Num lr_def)
  have lb: "blueLine A B = Num lb"
    by (simp only: blueLine_def base db js_add.simps round1_Num lb_def)
  have half_tenth: "(0.05 :: real) = 1 / 20"
    by simp
  have "\<bar>lr - (b + dr)\<bar> \<le> 1 / 20"
    unfolding lr_def by (rule round1_near)
  with bdr have blr: "\<bar>lr - b\<bar> \<le> 0.1 * \<bar>b\<bar> + 0.05"
    unfolding half_tenth by linarith
  have "\<bar>lb - (b + db)\<bar> \<le> 1 / 20"
    unfolding lb_def by (rule round1_near)
  with bdb have blb: "\<bar>lb - b\<bar> \<le> 0.1 * \<bar>b\<bar> + 0.05"
    unfolding half_tenth by linarith
  have ret: "baseLine (suggestOverUnder A B) = Num b"
            "line (red (perAlliance (suggestOverUnder A B))) = Num lr"
            "line (blue (perAlliance (suggestOverUnder A B))) = Num lb"
    by (simp_all add: suggestOverUnder_def base lr lb)
  from base ret dr db bdr bdb blr blb show ?thesis by blast
qed

theorem suggestOverUnder_delta_bound_witness:
  "js_le (Num 0) (redShare \<lparr>teams = [], allianceValue = Num 1000, allianceEPA = Num 82.1\<rparr>
                           \<lparr>teams = [], allianceValue = Num 1, allianceEPA = Num 75\<rparr>) \<and>
   js_le (redShare \<lparr>teams = [], allianceValue = Num 1000, allianceEPA = Num 82.1\<rparr>
                   \<lparr>teams = [], allianceValue = Num 1, allianceEPA = Num 75\<rparr>) (Num 1) \<and>
   js_le (Num 0) (blueShare \<lparr>teams = [], allianceValue = Num 1000, allianceEPA = Num 82.1\<rparr>
                            \<lparr>teams = [], allianceValue = Num 1, allianceEPA = Num 75\<rparr>) \<and>
   js_le (blueShare \<lparr>teams = [], allianceValue = Num 1000, allianceEPA = Num 82.1\<rparr>
                    \<lparr>teams = [], allianceValue = Num 1, allianceEPA = Num 75\<rparr>) (Num 1) \<and>
   \<bar>82.1 + 75\<bar> * 10 \<le> MAX_VALUE \<and>
   (\<exists>dr db lr lb.
      redDelta \<lparr>teams = [], allianceValue = Num 1000, allianceEPA = Num 82.1\<rparr>
               \<lparr>teams = [], allianceValue = Num 1, allianceEPA = Num 75\<rparr> = Num dr \<and>
      \<bar>dr\<bar> \<le> 7.86 \<and>
      blueDelta \<lparr>teams = [], allianceValue = Num 1000, allianceEPA = Num 82.1\<rparr>
                \<lparr>teams = [], allianceValue = Num 1, allianceEPA = Num 75\<rparr> = Num db \<and>
      \<bar>db\<bar> \<le> 7.86 \<and>
      line (red (perAlliance (suggestOverUnder
               \<lparr>teams = [], allianceValue = Num 1000, allianceEPA = Num 82.1\<rparr>
               \<lparr>teams = [], allianceValue = Num 1, allianceEPA = Num 75\<rparr>))) = Num lr \<and>
      \<bar>lr - 78.6\<bar> \<le> 7.91 \<and>
      line (blue (perAlliance (suggestOverUnder
               \<lparr>teams = [], allianceValue = Num 1000, allianceEPA = Num 82.1\<rparr>
               \<lparr>teams = [], allianceValue = Num 1, allianceEPA = Num 75\<rparr>))) = Num lb \<and>
      \<bar>lb - 78.6\<bar> \<le> 7.91)"
proof -
  let ?A = "\<lparr>teams = [], allianceValue = Num 1000, allianceEPA = Num 82.1\<rparr>"
  let ?B = "\<lparr>teams = [], allianceValue = Num 1, allianceEPA = Num 75\<rparr>"
  have h: "js_le (Num 0) (redShare ?A ?B)" "js_le (redShare ?A ?B) (Num 1)"
          "js_le (Num 0) (blueShare ?A ?B)" "js_le (blueShare ?A ?B) (Num 1)"
          "\<bar>82.1 + 75\<bar> * 10 \<le> MAX_VALUE"
    by (simp_all add: redShare_def blueShare_def totalValue_def MAX_VALUE_def)
  have b: "baseLine_of ?A ?B = Num 78.6"
    by (simp add: baseLine_of_def round1_def)
  from suggestOverUnder_delta_bound [OF h]
  obtain b' dr db lr lb where r:
    "baseLine_of ?A ?B = Num b'"
    "redDelta ?A ?B = Num dr" "\<bar>dr\<bar> \<le> 0.1 * \<bar>b'\<bar>"
    "blueDelta ?A ?B = Num db" "\<bar>db\<bar> \<le> 0.1 * \<bar>b'\<bar>"
    "line (red (perAlliance (suggestOverUnder ?A ?B))) = Num lr"
    "\<bar>lr - b'\<bar> \<le> 0.1 * \<bar>b'\<bar> + 0.05"
    "line (blue (perAlliance (suggestOverUnder ?A ?B))) = Num lb"
    "\<bar>lb - b'\<bar> \<le> 0.1 * \<bar>b'\<bar> + 0.05"
    by blast
  from r(1) b have b': "b' = 78.6" by simp
  from r(3,5,7,9) have "\<bar>dr\<bar> \<le> 7.86" "\<bar>db\<bar> \<le> 7.86" "\<bar>lr - 78.6\<bar> \<le> 7.91" "\<bar>lb - 78.6\<bar> \<le> 7.91"
    unfolding b' by simp_all
  with r(2,4,6,8)
  have "\<exists>dr db lr lb. redDelta ?A ?B = Num dr \<and> \<bar>dr\<bar> \<le> 7.86 \<and>
          blueDelta ?A ?B = Num db \<and> \<bar>db\<bar> \<le> 7.86 \<and>
          line (red (perAlliance (suggestOverUnder ?A ?B))) = Num lr \<and> \<bar>lr - 78.6\<bar> \<le> 7.91 \<and>
          line (blue (perAlliance (suggestOverUnder ?A ?B))) = Num lb \<and> \<bar>lb - 78.6\<bar> \<le> 7.91"
    by blast
  with h show ?thesis by blast
qed

text \<open>
  C8 as stated fails for the line: with alliance values 1000 and 1 (shares in [0,1]) and
  EPAs 4.6 and 4.6 the base line is 4.6 and the red line is 5.1, which is 0.5 away from
  the base line, more than 10% of it (0.46).
\<close>

theorem suggestOverUnder_line_beyond_tenth:
  "js_le (Num 0) (redShare \<lparr>teams = [], allianceValue = Num 1000, allianceEPA = Num 4.6\<rparr>
                           \<lparr>teams = [], allianceValue = Num 1, allianceEPA = Num 4.6\<rparr>) \<and>
   js_le (redShare \<lparr>teams = [], allianceValue = Num 1000, allianceEPA = Num 4.6\<rparr>
                   \<lparr>teams = [], allianceValue = Num 1, allianceEPA = Num 4.6\<rparr>) (Num 1) \<and>
   js_le (Num 0) (blueShare \<lparr>teams = [], allianceValue = Num 1000, allianceEPA = Num 4.6\<rparr>
                            \<lparr>teams = [], allianceValue = Num 1, allianceEPA = Num 4.6\<rparr>) \<and>
   js_le (blueShare \<lparr>teams = [], allianceValue = Num 1000, allianceEPA = Num 4.6\<rparr>
                    \<lparr>teams = [], allianceValue = Num 1, allianceEPA = Num 4.6\<rparr>) (Num 1) \<and>
   baseLine (suggestOverUnder
      \<lparr>teams = [], allianceValue = Num 1000, allianceEPA = Num 4.6\<rparr>
      \<lparr>teams = [], allianceValue = Num 1, allianceEPA = Num 4.6\<rparr>) = Num 4.6 \<and>
   line (red (perAlliance (suggestOverUnder
      \<lparr>teams = [], allianceValue = Num 1000, allianceEPA = Num 4.6\<rparr>
      \<lparr>teams = [], allianceValue = Num 1, allianceEPA = Num 4.6\<rparr>))) = Num 5.1 \<and>
   \<not> \<bar>5.1 - 4.6\<bar> \<le> 0.1 * \<bar>4.6 :: real\<bar>"
  by (simp add: suggestOverUnder_def baseLine_of_def round1_def totalValue_def redLine_def
        redDelta_def redShare_def blueShare_def js_sub_def)

text \<open>
  C10. Swapping the two arguments of \<open>suggestOverUnder\<close> keeps \<open>baseLine\<close> and \<open>matchLine\<close>
  and exchanges the two sides: the red side of the swapped call (line, alliance value,
  payout multiplier) is the blue side of the original call, and the blue side is the red
  one. This holds for all numbers, the special values included.
\<close>

theorem suggestOverUnder_swap:
  "baseLine (suggestOverUnder B A) = baseLine (suggestOverUnder A B) \<and>
   matchLine (suggestOverUnder B A) = matchLine (suggestOverUnder A B) \<and>
   red (perAlliance (suggestOverUnder B A)) = blue (perAlliance (suggestOverUnder A B)) \<and>
   blue (perAlliance (suggestOverUnder B A)) = red (perAlliance (suggestOverUnder A B))"
proof -
  have base: "baseLine_of B A = baseLine_of A B"
    by (simp add: baseLine_of_def js_add_commute)
  have total: "totalValue B A = totalValue A B"
    by (simp add: totalValue_def js_add_commute)
  have share: "redShare B A = blueShare A B" "blueShare B A = redShare A B"
    by (simp_all add: redShare_def blueShare_def total)
  have delta: "redDelta B A = blueDelta A B" "blueDelta B A = redDelta A B"
    by (simp_all add: redDelta_def blueDelta_def share base)
  have lines: "redLine B A = blueLine A B" "blueLine B A = redLine A B"
    by (simp_all add: redLine_def blueLine_def delta base)
  have match: "matchLine_of B A = matchLine_of A B"
    by (simp add: matchLine_of_def lines js_add_commute)
  have avg: "avgValue B A = avgValue A B"
    by (simp add: avgValue_def js_add_commute)
  have pay: "redPayout B A = bluePayout A B" "bluePayout B A = redPayout A B"
    by (simp_all add: redPayout_def bluePayout_def avg)
  show ?thesis
    by (simp add: suggestOverUnder_def base lines match pay)
qed

section \<open>Outside the domain of the win probability\<close>

text \<open>
  The ordering in the win probability is stated for win probabilities. Below \<open>-EPS\<close> the
  win factor is negative and the value is the floor, so a \<open>win_prob\<close> of -1 gives a
  smaller value than a \<open>win_prob\<close> of 0.
\<close>

lemma computeTeamValue_below_pole:
  "value' (computeTeamValue
     \<lparr>team_key = ''frc254'', rank = 1, epa = Num 10, win_prob = Num (- 1)\<rparr>) = Num 1 \<and>
   value' (computeTeamValue
     \<lparr>team_key = ''frc254'', rank = 1, epa = Num 10, win_prob = Num 0\<rparr>) = Num 1100"
  by (simp add: computeTeamValue_def getRankMultiplier_def RANK_MULTIPLIERS_def
        SCALE_EPA_def EPS_def MIN_TEAM_VALUE_def Let_def)


end
